theory Spec2Isabelle
  imports Complex_Main "HOL-Library.Sublist" "HOL-Library.Multiset"
begin

section \<open>Data model\<close>

text \<open>
  The book objects built by \<open>normaliseBook\<close>. A field that \<open>cleanString\<close> or
  \<open>extractIsbn\<close> may set to \<open>null\<close> is an option; \<open>parseNumber\<close> yields an integer
  (0 when the text is not a number), \<open>parseFloatOrZero\<close> a number (0 likewise).
  JavaScript numbers are IEEE 754 doubles. A rating, score or bonus is the real number
  that the double stands for, and every arithmetic operation of the code on them
  rounds its exact result to the nearest double (see below). Page counts, years and
  millisecond time stamps are integers.
\<close>

record book_rec =
  title :: "string option"
  author :: "string option"
  pages :: int
  publicationYear :: int
  averageRating :: real
  userRating :: real
  dateRead :: "string option"
  dateAdded :: "string option"
  shelves :: "string option"
  isbn :: "string option"

text \<open>
  The object returned by \<open>deriveBehaviourProfile\<close>. The profile returned for an empty
  read-book set has no \<open>avgRating\<close> property at all (reading it gives \<open>undefined\<close>).
\<close>

record profile_rec =
  dominantLength :: "string option"
  dominantEra :: "string option"
  topAuthors :: "string list"
  avgRating :: "real option"

record selections_rec =
  timeInvestment :: string
  behaviourPreference :: string
  backlogPreference :: string
  riskPreference :: string

text \<open>The global \<open>decisionState\<close>; \<open>behaviourProfile\<close> is \<open>null\<close> before initialisation.\<close>

record decision_state =
  currentStep :: int
  selections :: selections_rec
  candidates :: "book_rec list"
  allBooks :: "book_rec list"
  behaviourProfile :: "profile_rec option"

text \<open>JavaScript truthiness of a value that is \<open>null\<close> or a string.\<close>

definition truthy :: "string option \<Rightarrow> bool" where
  "truthy v = (case v of None \<Rightarrow> False | Some s \<Rightarrow> s \<noteq> [])"

section \<open>Double-precision arithmetic\<close>

text \<open>
  \<open>toDouble x\<close> is the double nearest to the real \<open>x\<close>, ties going to the even
  significand: the rounding of every JavaScript operation and of every decimal
  literal. In the binade of \<open>x\<close>, from \<open>2 powi e\<close> up to \<open>2 powi (e + 1)\<close> in magnitude,
  the doubles are the multiples of \<open>2 powi (e - 52)\<close>; below \<open>2 powi (- 1022)\<close>, the
  subnormal range, they are the multiples of \<open>2 powi (- 1074)\<close>. Overflow to
  \<open>Infinity\<close>, \<open>NaN\<close> and the sign of zero are not modelled.
\<close>

definition roundHalfEven :: "real \<Rightarrow> int" where
  "roundHalfEven q =
     (let f = \<lfloor>q\<rfloor>; d = q - of_int f in
      if d < 1/2 then f else if 1/2 < d then f + 1 else if even f then f else f + 1)"

definition binade :: "real \<Rightarrow> int" where
  "binade x = max \<lfloor>log 2 \<bar>x\<bar>\<rfloor> (- 1022)"

definition toDouble :: "real \<Rightarrow> real" where
  "toDouble x =
     (if x = 0 then 0
      else of_int (roundHalfEven (x / 2 powi (binade x - 52))) * 2 powi (binade x - 52))"


text \<open>The operators \<open>+\<close>, \<open>-\<close>, \<open>*\<close> and \<open>/\<close> of the code on two doubles.\<close>

definition dadd :: "real \<Rightarrow> real \<Rightarrow> real" where
  "dadd a b = toDouble (a + b)"

definition dsub :: "real \<Rightarrow> real \<Rightarrow> real" where
  "dsub a b = toDouble (a - b)"

definition dmul :: "real \<Rightarrow> real \<Rightarrow> real" where
  "dmul a b = toDouble (a * b)"

definition ddiv :: "real \<Rightarrow> real \<Rightarrow> real" where
  "ddiv a b = toDouble (a / b)"

section \<open>Step 1: the time-investment filter\<close>

definition applyTimeFilter :: "book_rec list \<Rightarrow> string \<Rightarrow> book_rec list" where
  "applyTimeFilter books selection =
     (if selection = [] \<or> selection = ''any'' then books
      else filter (\<lambda>book.
             if pages book \<le> 0 then selection = ''any''
             else if selection = ''quick'' then pages book < 300
             else if selection = ''moderate'' then pages book \<ge> 300 \<and> pages book \<le> 500
             else if selection = ''long'' then pages book > 500
             else True) books)"

section \<open>The behaviour profile\<close>

text \<open>
  \<open>average\<close>: 0 for an empty array, otherwise the sum that \<open>reduce\<close> accumulates from
  0 on, divided by the length.
\<close>

definition average :: "real list \<Rightarrow> real" where
  "average arr = (if arr = [] then 0 else ddiv (foldl dadd 0 arr) (real (length arr)))"

text \<open>
  The counter objects \<open>lengthCounts\<close> and \<open>eraCounts\<close>, and one pass of each
  \<open>forEach\<close> body over a read book.
\<close>

record length_counts =
  quick :: nat
  moderate :: nat
  long :: nat

record era_counts =
  classic :: nat
  late20th :: nat
  modern :: nat

definition countLength :: "length_counts \<Rightarrow> book_rec \<Rightarrow> length_counts" where
  "countLength c book =
     (if pages book > 0 then
        (if pages book < 300 then c\<lparr>quick := quick c + 1\<rparr>
         else if pages book \<le> 500 then c\<lparr>moderate := moderate c + 1\<rparr>
         else c\<lparr>long := long c + 1\<rparr>)
      else c)"

definition countEra :: "era_counts \<Rightarrow> book_rec \<Rightarrow> era_counts" where
  "countEra c book =
     (if publicationYear book > 0 then
        (if publicationYear book < 1950 then c\<lparr>classic := classic c + 1\<rparr>
         else if publicationYear book \<le> 1999 then c\<lparr>late20th := late20th c + 1\<rparr>
         else c\<lparr>modern := modern c + 1\<rparr>)
      else c)"

text \<open>
  \<open>Object.entries\<close> lists the properties of the counter objects in the order in which
  the object literal created them.
\<close>

definition lengthEntries :: "length_counts \<Rightarrow> (string \<times> nat) list" where
  "lengthEntries c = [(''quick'', quick c), (''moderate'', moderate c), (''long'', long c)]"

definition eraEntries :: "era_counts \<Rightarrow> (string \<times> nat) list" where
  "eraEntries c = [(''classic'', classic c), (''late20th'', late20th c), (''modern'', modern c)]"

text \<open>
  \<open>entries.sort((a, b) => b[1] - a[1])\<close>: \<open>Array.prototype.sort\<close> is stable, so this is
  the stable sort by descending count, here the insertion sort on the key \<open>- count\<close>.
\<close>

definition sortByCountDesc :: "(string \<times> nat) list \<Rightarrow> (string \<times> nat) list" where
  "sortByCountDesc entries = sort_key (\<lambda>e. - int (snd e)) entries"

text \<open>
  \<open>sorted[0][0]\<close>. Both counter objects have three entries, so the empty case (where
  JavaScript would throw) never arises in \<open>deriveBehaviourProfile\<close>.
\<close>

definition firstKey :: "(string \<times> nat) list \<Rightarrow> string option" where
  "firstKey entries = (case entries of [] \<Rightarrow> None | e # _ \<Rightarrow> Some (fst e))"

text \<open>
  \<open>authorCounts[book.author] = (authorCounts[book.author] || 0) + 1\<close>: the own
  properties of the object in the order of their first insertion. Author names that
  are property names of \<open>Object.prototype\<close> (such as \<open>constructor\<close>), whose first lookup
  finds the inherited value, are outside the model.
\<close>

fun bumpAuthor :: "string \<Rightarrow> (string \<times> nat) list \<Rightarrow> (string \<times> nat) list" where
  "bumpAuthor a [] = [(a, 1)]"
| "bumpAuthor a ((k, c) # rest) =
     (if k = a then (k, c + 1) # rest else (k, c) # bumpAuthor a rest)"

definition countAuthor :: "(string \<times> nat) list \<Rightarrow> book_rec \<Rightarrow> (string \<times> nat) list" where
  "countAuthor counts book =
     (case author book of
        None \<Rightarrow> counts
      | Some a \<Rightarrow> if a = [] then counts else bumpAuthor a counts)"

text \<open>
  \<open>Object.entries\<close> of an object with arbitrary keys lists the keys that are array
  indices (canonical decimal numerals below \<open>2 ^ 32 - 1\<close>) first, in ascending numeric
  order, and then the other keys in insertion order.
\<close>

definition isDigit :: "char \<Rightarrow> bool" where
  "isDigit c = (48 \<le> (of_char c :: nat) \<and> (of_char c :: nat) \<le> 57)"

definition arrayIndex :: "string \<Rightarrow> nat option" where
  "arrayIndex key =
     (if key \<noteq> [] \<and> list_all isDigit key \<and> (length key = 1 \<or> hd key \<noteq> CHR ''0'') then
        (let n = foldl (\<lambda>n c. 10 * n + (of_char c - 48)) 0 key
         in if n < 2 ^ 32 - 1 then Some n else None)
      else None)"

definition objectEntries :: "(string \<times> nat) list \<Rightarrow> (string \<times> nat) list" where
  "objectEntries props =
     sort_key (\<lambda>e. case arrayIndex (fst e) of Some n \<Rightarrow> n | None \<Rightarrow> 0)
       (filter (\<lambda>e. arrayIndex (fst e) \<noteq> None) props)
     @ filter (\<lambda>e. arrayIndex (fst e) = None) props"

text \<open>
  \<open>deriveBehaviourProfile\<close> reads the global \<open>books\<close>, here its first argument.
\<close>

definition deriveBehaviourProfile :: "book_rec list \<Rightarrow> profile_rec" where
  "deriveBehaviourProfile books =
     (let readBooks = filter (\<lambda>b. dateRead b \<noteq> None) books in
      if readBooks = [] then
        \<lparr>dominantLength = None, dominantEra = None, topAuthors = [], avgRating = None\<rparr>
      else
        (let lengthCounts = foldl countLength \<lparr>quick = 0, moderate = 0, long = 0\<rparr> readBooks;
             eraCounts = foldl countEra \<lparr>classic = 0, late20th = 0, modern = 0\<rparr> readBooks;
             authorCounts = foldl countAuthor [] readBooks
         in \<lparr>dominantLength = firstKey (sortByCountDesc (lengthEntries lengthCounts)),
             dominantEra = firstKey (sortByCountDesc (eraEntries eraCounts)),
             topAuthors = map fst (take 5 (sortByCountDesc (objectEntries authorCounts))),
             avgRating = Some (average (filter (\<lambda>r. r > 0) (map averageRating readBooks)))\<rparr>))"

section \<open>Scoring\<close>

text \<open>\<open>profile.topAuthors.includes(book.author)\<close>; the list never holds \<open>null\<close>.\<close>

definition includesAuthor :: "string list \<Rightarrow> string option \<Rightarrow> bool" where
  "includesAuthor authors a = (case a of None \<Rightarrow> False | Some s \<Rightarrow> s \<in> set authors)"

definition bookLength :: "book_rec \<Rightarrow> string" where
  "bookLength book =
     (if pages book < 300 then ''quick'' else if pages book \<le> 500 then ''moderate'' else ''long'')"

definition bookEra :: "book_rec \<Rightarrow> string" where
  "bookEra book =
     (if publicationYear book < 1950 then ''classic''
      else if publicationYear book \<le> 1999 then ''late20th'' else ''modern'')"

text \<open>
  The bonus of \<open>applyBehaviourScoring\<close> is a sum of the numbers 1.5, 1 and 0.5 from 0
  on; every partial sum is a double, so no addition rounds.
\<close>

definition applyBehaviourScoring :: "book_rec \<Rightarrow> profile_rec \<Rightarrow> string \<Rightarrow> real" where
  "applyBehaviourScoring book profile preference =
     (if \<not> truthy (dominantLength profile) \<and> \<not> truthy (dominantEra profile) then 0
      else if preference = ''familiar'' then
        (if truthy (dominantLength profile) \<and> pages book > 0
            \<and> Some (bookLength book) = dominantLength profile then 1.5 else 0)
        + (if truthy (dominantEra profile) \<and> publicationYear book > 0
              \<and> Some (bookEra book) = dominantEra profile then 1.5 else 0)
        + (if includesAuthor (topAuthors profile) (author book) then 0.5 else 0)
      else if preference = ''different'' then
        (if truthy (dominantLength profile) \<and> pages book > 0
            \<and> Some (bookLength book) \<noteq> dominantLength profile then 1 else 0)
        + (if truthy (dominantEra profile) \<and> publicationYear book > 0
              \<and> Some (bookEra book) \<noteq> dominantEra profile then 1 else 0)
        + (if \<not> includesAuthor (topAuthors profile) (author book) then 0.5 else 0)
      else 0)"

text \<open>
  \<open>applyBacklogScoring\<close> reads the clock (\<open>new Date()\<close>, here \<open>now\<close>, in milliseconds)
  and parses the date text with the engine's \<open>Date\<close> constructor (here \<open>parseDate\<close>,
  \<open>None\<close> for an invalid date, whose time value is NaN: every comparison with it is
  false, so no branch returns a bonus). The quotient of the code is the double nearest
  to the exact quotient; as 1 and 3 are doubles and rounding is monotone, it compares
  with 1 and 3 as the exact quotient does.
\<close>

definition msPerYear :: real where
  "msPerYear = 1000 * 60 * 60 * 24 * 365"

definition applyBacklogScoring ::
  "(string \<Rightarrow> int option) \<Rightarrow> int \<Rightarrow> book_rec \<Rightarrow> string \<Rightarrow> real" where
  "applyBacklogScoring parseDate now book preference =
     (case dateAdded book of
        None \<Rightarrow> 0
      | Some dateText \<Rightarrow>
          if dateText = [] then 0
          else
            (case parseDate dateText of
               None \<Rightarrow> 0
             | Some added \<Rightarrow>
                 (let yearsSinceAdded = real_of_int (now - added) / msPerYear in
                  if preference = ''old'' then
                    (if yearsSinceAdded \<ge> 3 then 2 else if yearsSinceAdded \<ge> 1 then 1 else 0)
                  else if preference = ''new'' then
                    (if yearsSinceAdded < 1 then 2 else if yearsSinceAdded < 3 then 1 else 0)
                  else 0)))"

text \<open>
  \<open>applyRiskScoring\<close>; the literals 1.1, 3.7, 4.1 and 0.3 are the doubles nearest to
  these decimals, 0.5 and 1.5 are doubles themselves.
\<close>

definition applyRiskScoring :: "book_rec \<Rightarrow> string \<Rightarrow> profile_rec option \<Rightarrow> real" where
  "applyRiskScoring book preference profile =
     (let rating = averageRating book in
      if preference = ''safe'' then dmul rating 0.5
      else if preference = ''risky'' then
        (case profile of
           None \<Rightarrow> 0
         | Some p \<Rightarrow>
             (case avgRating p of
                None \<Rightarrow> 0
              | Some avg \<Rightarrow>
                  if avg > 0 then
                    (let distanceFromAvg = \<bar>dsub rating avg\<bar> in
                     if rating < dmul avg (toDouble 1.1) \<and> rating \<ge> toDouble 3.7
                        \<and> rating \<le> toDouble 4.1
                     then dsub 1.5 (dmul distanceFromAvg (toDouble 0.3)) else 0)
                  else 0))
      else 0)"

text \<open>\<open>calculateFinalScore\<close>: the rating, and one \<open>score += bonus\<close> for each step chosen.\<close>

definition calculateFinalScore ::
  "(string \<Rightarrow> int option) \<Rightarrow> int \<Rightarrow> decision_state \<Rightarrow> book_rec \<Rightarrow> real" where
  "calculateFinalScore parseDate now st book =
     (let score0 = averageRating book;
          score1 =
            (case behaviourProfile st of
               None \<Rightarrow> score0
             | Some profile \<Rightarrow>
                 if behaviourPreference (selections st) \<noteq> []
                 then dadd score0
                        (applyBehaviourScoring book profile (behaviourPreference (selections st)))
                 else score0);
          score2 =
            (if backlogPreference (selections st) \<noteq> []
             then dadd score1
                    (applyBacklogScoring parseDate now book (backlogPreference (selections st)))
             else score1)
      in if riskPreference (selections st) \<noteq> []
         then dadd score2
                (applyRiskScoring book (riskPreference (selections st)) (behaviourProfile st))
         else score2)"

section \<open>The final recommendation\<close>

text \<open>
  The elements of \<open>scored\<close> and the object handed to \<open>renderRecommendation\<close>, which
  adds \<open>totalCandidates\<close>.
\<close>

record scored_rec =
  book :: book_rec
  score :: real

record recommendation_rec = scored_rec +
  totalCandidates :: nat

definition scoreCandidates ::
  "(string \<Rightarrow> int option) \<Rightarrow> int \<Rightarrow> decision_state \<Rightarrow> scored_rec list" where
  "scoreCandidates parseDate now st =
     map (\<lambda>b. \<lparr>book = b, score = calculateFinalScore parseDate now st b\<rparr>) (candidates st)"

text \<open>
  \<open>scored.sort((a, b) => b.score - a.score)\<close>: the difference of two doubles has the
  sign of their exact difference, so this is the stable sort by descending score.
\<close>

definition sortByScoreDesc :: "scored_rec list \<Rightarrow> scored_rec list" where
  "sortByScoreDesc scored = sort_key (\<lambda>s. - score s) scored"

text \<open>
  The choice of the winner in a sorted, non-empty \<open>scored\<close>; \<open>random\<close> is the value
  that \<open>Math.random()\<close> returns, a double in \<open>[0, 1)\<close>. An index outside the array
  gives \<open>undefined\<close>, here \<open>None\<close>.
\<close>

definition selectWinner :: "real \<Rightarrow> scored_rec \<Rightarrow> scored_rec list \<Rightarrow> scored_rec option" where
  "selectWinner random winner others =
     (let scored = winner # others in
      if length scored > 1 \<and> score (scored ! 1) \<ge> dsub (score winner) 0.5 then
        (let nearTies = filter (\<lambda>s. score s \<ge> dsub (score winner) 0.5) scored;
             i = \<lfloor>dmul random (real (length nearTies))\<rfloor>
         in if 0 \<le> i \<and> i < int (length nearTies) then Some (nearTies ! nat i) else None)
      else Some winner)"

text \<open>
  What \<open>runRecommendation\<close> leaves on the page: the "No books match your criteria"
  message, the rendered recommendation, or nothing, when reading \<open>winner.book\<close> of an
  undefined winner throws.
\<close>

datatype outcome = NoMatchMessage | Rendered recommendation_rec | TypeError

definition runRecommendation ::
  "(string \<Rightarrow> int option) \<Rightarrow> int \<Rightarrow> real \<Rightarrow> decision_state \<Rightarrow> outcome" where
  "runRecommendation parseDate now random st =
     (if candidates st = [] then NoMatchMessage
      else
        (case sortByScoreDesc (scoreCandidates parseDate now st) of
           [] \<Rightarrow> NoMatchMessage
         | first # others \<Rightarrow>
             (case selectWinner random first others of
                None \<Rightarrow> TypeError
              | Some winner \<Rightarrow>
                  Rendered \<lparr>book = book winner, score = score winner,
                            totalCandidates = length (first # others)\<rparr>)))"

section \<open>The decision funnel\<close>

text \<open>
  \<open>initDecisionEngine\<close> assigns every field of the global state; the global \<open>books\<close>
  that \<open>deriveBehaviourProfile\<close> reads is its first argument here.
\<close>

definition emptySelections :: selections_rec where
  "emptySelections =
     \<lparr>timeInvestment = [], behaviourPreference = [], backlogPreference = [],
      riskPreference = []\<rparr>"

definition initDecisionEngine :: "book_rec list \<Rightarrow> book_rec list \<Rightarrow> decision_state" where
  "initDecisionEngine books wantToReadBooks =
     \<lparr>currentStep = 1, selections = emptySelections, candidates = wantToReadBooks,
      allBooks = wantToReadBooks,
      behaviourProfile = Some (deriveBehaviourProfile books)\<rparr>"

text \<open>
  A step button carries the name of the selection it sets (\<open>data-step\<close>) and the value
  (\<open>data-value\<close>); \<open>decisionState.selections[step] = value\<close>.
\<close>

datatype step_key = TimeInvestment | BehaviourPreference | BacklogPreference | RiskPreference

fun storeSelection :: "step_key \<Rightarrow> string \<Rightarrow> selections_rec \<Rightarrow> selections_rec" where
  "storeSelection TimeInvestment v sel = sel\<lparr>timeInvestment := v\<rparr>"
| "storeSelection BehaviourPreference v sel = sel\<lparr>behaviourPreference := v\<rparr>"
| "storeSelection BacklogPreference v sel = sel\<lparr>backlogPreference := v\<rparr>"
| "storeSelection RiskPreference v sel = sel\<lparr>riskPreference := v\<rparr>"

text \<open>\<open>advanceStep\<close>, without its changes to the page.\<close>

definition advanceStep :: "int \<Rightarrow> decision_state \<Rightarrow> decision_state" where
  "advanceStep stepNumber st = st\<lparr>currentStep := stepNumber\<rparr>"

text \<open>
  What a click handler does besides changing the state: it shows a step, shows the
  no-candidates message with its relax button, or calls \<open>runRecommendation\<close> on the
  state it leaves.
\<close>

datatype ui_effect = ShowStep int | ShowNoCandidatesMessage | RunRecommendation | NoEffect

text \<open>The click handler that \<open>setupStepButtons\<close> installs.\<close>

definition stepButtonClick ::
  "step_key \<Rightarrow> string \<Rightarrow> decision_state \<Rightarrow> decision_state \<times> ui_effect" where
  "stepButtonClick step v st0 =
     (let st = st0\<lparr>selections := storeSelection step v (selections st0)\<rparr> in
      if currentStep st = 1 then
        (let filtered = applyTimeFilter (candidates st) v in
         if length filtered = 0 then (st, ShowNoCandidatesMessage)
         else (advanceStep 2 (st\<lparr>candidates := filtered\<rparr>), ShowStep 2))
      else if currentStep st = 2 then (advanceStep 3 st, ShowStep 3)
      else if currentStep st = 3 then (advanceStep 4 st, ShowStep 4)
      else if currentStep st = 4 then (st, RunRecommendation)
      else (st, NoEffect))"

text \<open>
  The click handler that \<open>setupBackButtons\<close> installs; \<open>targetStep\<close> is the number
  parsed from the button's \<open>data-step\<close>.
\<close>

definition clearPassedSelections :: "int \<Rightarrow> decision_state \<Rightarrow> decision_state" where
  "clearPassedSelections targetStep st =
     (if targetStep < currentStep st then
        (let s1 = (if currentStep st > 3 then (selections st)\<lparr>riskPreference := []\<rparr>
                   else selections st);
             s2 = (if currentStep st > 2 then s1\<lparr>backlogPreference := []\<rparr> else s1);
             s3 = (if currentStep st > 1 then s2\<lparr>behaviourPreference := []\<rparr> else s2)
         in st\<lparr>selections := s3\<rparr>)
      else st)"

definition backButtonClick :: "int \<Rightarrow> decision_state \<Rightarrow> decision_state" where
  "backButtonClick targetStep st0 =
     (let st1 = clearPassedSelections targetStep st0;
          st2 = (if targetStep = 1
                 then st1\<lparr>candidates := allBooks st1,
                          selections := (selections st1)\<lparr>timeInvestment := []\<rparr>\<rparr>
                 else st1)
      in advanceStep targetStep st2)"

definition relaxConstraint :: "decision_state \<Rightarrow> decision_state" where
  "relaxConstraint st0 =
     (let st = st0\<lparr>candidates := allBooks st0\<rparr> in
      if currentStep st = 2
      then st\<lparr>selections := (selections st)\<lparr>timeInvestment := []\<rparr>\<rparr>
      else st)"

definition resetDecisionFlow :: "decision_state \<Rightarrow> decision_state" where
  "resetDecisionFlow st =
     st\<lparr>currentStep := 1, selections := emptySelections, candidates := allBooks st\<rparr>"

text \<open>The user's actions on the funnel, and a session as the list of them.\<close>

datatype event =
  StepButton step_key string
| BackButton int
| RelaxButton
| StartOver

fun applyEvent :: "decision_state \<Rightarrow> event \<Rightarrow> decision_state" where
  "applyEvent st (StepButton step v) = fst (stepButtonClick step v st)"
| "applyEvent st (BackButton targetStep) = backButtonClick targetStep st"
| "applyEvent st RelaxButton = relaxConstraint st"
| "applyEvent st StartOver = resetDecisionFlow st"

definition runEvents :: "decision_state \<Rightarrow> event list \<Rightarrow> decision_state" where
  "runEvents st events = foldl applyEvent st events"

section \<open>The specification's notions, for comparison with the code\<close>



text \<open>
  The behaviour-alignment bonus as the specification words it: every book has the
  length bucket and the era bucket that the thresholds give it, and the bonus compares
  them with the profile's dominant ones.
\<close>

definition spec_behaviourBonus :: "book_rec \<Rightarrow> profile_rec \<Rightarrow> string \<Rightarrow> real" where
  "spec_behaviourBonus b profile preference =
     (if preference = ''familiar'' then
        (if Some (bookLength b) = dominantLength profile then 1.5 else 0)
        + (if Some (bookEra b) = dominantEra profile then 1.5 else 0)
        + (if includesAuthor (topAuthors profile) (author b) then 0.5 else 0)
      else if preference = ''different'' then
        (if Some (bookLength b) \<noteq> dominantLength profile then 1 else 0)
        + (if Some (bookEra b) \<noteq> dominantEra profile then 1 else 0)
        + (if \<not> includesAuthor (topAuthors profile) (author b) then 0.5 else 0)
      else 0)"


text \<open>
  The dominant era as the specification words it: a publication year is unknown when it
  is 0, the buckets are those of the thresholds, and the first bucket of the order with
  the largest count wins.
\<close>

definition spec_firstLargest :: "string \<Rightarrow> nat \<Rightarrow> string \<Rightarrow> nat \<Rightarrow> string \<Rightarrow> nat \<Rightarrow> string" where
  "spec_firstLargest k1 a k2 b k3 c =
     (if b \<le> a \<and> c \<le> a then k1 else if c \<le> b then k2 else k3)"

definition spec_dominantEra :: "book_rec list \<Rightarrow> string" where
  "spec_dominantEra readBooks =
     (let known = filter (\<lambda>b. publicationYear b \<noteq> 0) readBooks
      in spec_firstLargest
           ''classic'' (length (filter (\<lambda>b. publicationYear b < 1950) known))
           ''late20th'' (length (filter (\<lambda>b. 1950 \<le> publicationYear b
                                            \<and> publicationYear b \<le> 1999) known))
           ''modern'' (length (filter (\<lambda>b. 2000 \<le> publicationYear b) known)))"

section \<open>Example data\<close>

text \<open>
  An unread book of the backlog with a page count, a publication year and an average
  rating, and a read book with a page count and a publication year.
\<close>

definition backlogBook :: "int \<Rightarrow> int \<Rightarrow> real \<Rightarrow> book_rec" where
  "backlogBook n year rating =
     \<lparr>title = None, author = None, pages = n, publicationYear = year,
      averageRating = rating, userRating = 0, dateRead = None, dateAdded = None,
      shelves = Some ''to-read'', isbn = None\<rparr>"

definition readBook :: "int \<Rightarrow> int \<Rightarrow> book_rec" where
  "readBook n year =
     \<lparr>title = None, author = Some ''Author A'', pages = n, publicationYear = year,
      averageRating = 4, userRating = 4, dateRead = Some ''01/01/2024'', dateAdded = None,
      shelves = None, isbn = None\<rparr>"

text \<open>A parser that rejects every date text.\<close>

definition noDate :: "string \<Rightarrow> int option" where
  "noDate dateText = None"

text \<open>
  The state after the choices \<open>any\<close>, \<open>familiar\<close> and \<open>old\<close> on a backlog of one book:
  the funnel is at Step 4.
\<close>

definition stateAtStep4 :: decision_state where
  "stateAtStep4 =
     \<lparr>currentStep = 4,
      selections = \<lparr>timeInvestment = ''any'', behaviourPreference = ''familiar'',
                    backlogPreference = ''old'', riskPreference = []\<rparr>,
      candidates = [backlogBook 400 2010 4], allBooks = [backlogBook 400 2010 4],
      behaviourProfile = Some (deriveBehaviourProfile [])\<rparr>"

text \<open>
  A funnel at Step 4 over candidates with the ratings \<open>ratings\<close>, nothing chosen: the
  score of each candidate is its rating.
\<close>

definition ratedState :: "real list \<Rightarrow> decision_state" where
  "ratedState ratings =
     \<lparr>currentStep = 4, selections = emptySelections,
      candidates = map (backlogBook 0 0) ratings, allBooks = map (backlogBook 0 0) ratings,
      behaviourProfile = Some (deriveBehaviourProfile [])\<rparr>"




text \<open>The ratings 4.6, 4.4 and 3.9 as the code holds them.\<close>

definition rating46 :: real where
  "rating46 = toDouble 4.6"

definition rating44 :: real where
  "rating44 = toDouble 4.4"

definition rating39 :: real where
  "rating39 = toDouble 3.9"

text \<open>
  A funnel at Step 4 with the one choice \<open>old\<close>, over a book rated 3.56 without a date
  and a book rated 3.06 that was added two 365-day years before \<open>now\<close>: with the
  parser \<open>epochDate\<close> and the clock \<open>twoYears\<close> the second book gets the bonus 1.
\<close>

definition epochDate :: "string \<Rightarrow> int option" where
  "epochDate dateText = Some 0"

definition twoYears :: int where
  "twoYears = 2 * (1000 * 60 * 60 * 24 * 365)"

definition agedState :: decision_state where
  "agedState =
     \<lparr>currentStep = 4,
      selections = emptySelections\<lparr>backlogPreference := ''old''\<rparr>,
      candidates = [backlogBook 0 0 (toDouble 3.56),
                    (backlogBook 0 0 (toDouble 3.06))\<lparr>dateAdded := Some ''2023/01/01''\<rparr>],
      allBooks = [backlogBook 0 0 (toDouble 3.56),
                  (backlogBook 0 0 (toDouble 3.06))\<lparr>dateAdded := Some ''2023/01/01''\<rparr>],
      behaviourProfile = None\<rparr>"


section \<open>Properties of double-precision arithmetic\<close>

lemma floor_log2_eq:
  assumes "2 powi e \<le> x" "x < 2 powi (e + 1)"
  shows "\<lfloor>log 2 x\<rfloor> = e"
proof -
  have pos: "0 < x" using assms(1) by (smt (verit) zero_less_power_int)
  have "2 powr (real_of_int e) = (2::real) powi e"
    by (simp add: powr_real_of_int')
  moreover have "2 powr (real_of_int e + 1) = (2::real) powi (e + 1)"
    using powr_real_of_int' [of 2 "e + 1"] by simp
  ultimately show ?thesis
    using assms pos by (simp add: floor_log_eq_powr_iff)
qed

lemma toDouble_eval:
  assumes "2 powi e \<le> \<bar>x\<bar>" "\<bar>x\<bar> < 2 powi (e + 1)" "- 1022 \<le> e"
  shows "toDouble x = of_int (roundHalfEven (x / 2 powi (e - 52))) * 2 powi (e - 52)"
proof -
  have "x \<noteq> 0" using assms(1) by (smt (verit) zero_less_power_int)
  moreover have "binade x = e"
    unfolding binade_def floor_log2_eq [OF assms(1,2)] using assms(3) by simp
  ultimately show ?thesis by (simp add: toDouble_def)
qed


































text \<open>Evaluation of \<open>toDouble\<close> at a number whose binade is given.\<close>

lemmas toDouble_binade =
  toDouble_eval [of "- 4"] toDouble_eval [of "- 3"] toDouble_eval [of "- 2"]
  toDouble_eval [of "- 1"] toDouble_eval [of 0] toDouble_eval [of 1] toDouble_eval [of 2]

section \<open>Properties of the time filter\<close>

text \<open>
  Claim C7. The Step-1 filter keeps, in their order, exactly the books with
  \<open>0 < pages < 300\<close> under \<open>quick\<close>, with \<open>300 \<le> pages \<le> 500\<close> under \<open>moderate\<close> and with
  \<open>pages > 500\<close> under \<open>long\<close>; under \<open>any\<close> the list comes back unchanged (same
  books, same order); of the books of unknown page count (\<open>pages = 0\<close>) a chosen
  option (a non-empty selection text) keeps all under \<open>any\<close> and none otherwise.
  Books with 200, 400 and 600 pages filtered with \<open>quick\<close> leave exactly the 200-page
  book.
\<close>

theorem applyTimeFilter_buckets:
  "applyTimeFilter books ''quick'' = filter (\<lambda>b. 0 < pages b \<and> pages b < 300) books
   \<and> applyTimeFilter books ''moderate'' = filter (\<lambda>b. 300 \<le> pages b \<and> pages b \<le> 500) books
   \<and> applyTimeFilter books ''long'' = filter (\<lambda>b. 500 < pages b) books
   \<and> applyTimeFilter books ''any'' = books
   \<and> filter (\<lambda>b. pages b = 0) (applyTimeFilter books (c # cs))
       = (if c # cs = ''any'' then filter (\<lambda>b. pages b = 0) books else [])
   \<and> applyTimeFilter [b1\<lparr>pages := 200\<rparr>, b2\<lparr>pages := 400\<rparr>, b3\<lparr>pages := 600\<rparr>] ''quick''
       = [b1\<lparr>pages := 200\<rparr>]"
proof -
  have q: "applyTimeFilter books ''quick'' = filter (\<lambda>b. 0 < pages b \<and> pages b < 300) books"
    unfolding applyTimeFilter_def by (auto intro: filter_cong)
  have m: "applyTimeFilter books ''moderate''
             = filter (\<lambda>b. 300 \<le> pages b \<and> pages b \<le> 500) books"
    unfolding applyTimeFilter_def by (auto intro: filter_cong)
  have l: "applyTimeFilter books ''long'' = filter (\<lambda>b. 500 < pages b) books"
    unfolding applyTimeFilter_def by (auto intro: filter_cong)
  have a: "applyTimeFilter books ''any'' = books"
    unfolding applyTimeFilter_def by simp
  have u: "filter (\<lambda>b. pages b = 0) (applyTimeFilter books (c # cs))
             = (if c # cs = ''any'' then filter (\<lambda>b. pages b = 0) books else [])"
    unfolding applyTimeFilter_def by (auto simp: filter_empty_conv)
  have e: "applyTimeFilter [b1\<lparr>pages := 200\<rparr>, b2\<lparr>pages := 400\<rparr>, b3\<lparr>pages := 600\<rparr>] ''quick''
             = [b1\<lparr>pages := 200\<rparr>]"
    unfolding applyTimeFilter_def by simp
  show ?thesis
    using q m l a u e by blast
qed

section \<open>Properties of the behaviour profile\<close>

lemma foldl_countLength:
  "foldl countLength c xs =
     \<lparr>quick = quick c + length (filter (\<lambda>b. 0 < pages b \<and> pages b < 300) xs),
      moderate = moderate c + length (filter (\<lambda>b. 300 \<le> pages b \<and> pages b \<le> 500) xs),
      long = long c + length (filter (\<lambda>b. 500 < pages b) xs)\<rparr>"
  by (induction xs arbitrary: c) (auto simp: countLength_def)

lemma foldl_countEra:
  "foldl countEra c xs =
     \<lparr>classic = classic c
         + length (filter (\<lambda>b. 0 < publicationYear b \<and> publicationYear b < 1950) xs),
      late20th = late20th c
         + length (filter (\<lambda>b. 1950 \<le> publicationYear b \<and> publicationYear b \<le> 1999) xs),
      modern = modern c + length (filter (\<lambda>b. 2000 \<le> publicationYear b) xs)\<rparr>"
  by (induction xs arbitrary: c) (auto simp: countEra_def)

text \<open>
  The first key after the stable descending sort of three entries is the first entry,
  in their given order, whose count is the largest.
\<close>

lemma firstKey_three:
  "firstKey (sortByCountDesc [(k1, a), (k2, b), (k3, c)])
     = Some (if b \<le> a \<and> c \<le> a then k1 else if c \<le> b then k2 else k3)"
  by (auto simp: firstKey_def sortByCountDesc_def)

text \<open>
  Claim C8, as stated, at three read books published in the years -750, -375 and 2005.
  The specification knows a publication year unless it is 0, and its \<open>classic\<close> bucket
  holds every year before 1950: two of the three books are classics. The code counts
  a year only when it is positive, finds one modern book and no other, and makes
  \<open>modern\<close> the dominant era.
\<close>

theorem deriveBehaviourProfile_negative_year_counterexample:
  "dominantEra (deriveBehaviourProfile
      [readBook 300 (- 750), readBook 300 (- 375), readBook 300 2005]) = Some ''modern''
   \<and> spec_dominantEra (filter (\<lambda>b. dateRead b \<noteq> None)
      [readBook 300 (- 750), readBook 300 (- 375), readBook 300 2005]) = ''classic''"
  by (simp add: deriveBehaviourProfile_def readBook_def Let_def countEra_def eraEntries_def
      sortByCountDesc_def firstKey_def spec_dominantEra_def spec_firstLargest_def)

text \<open>
  Claim C8, amended. When at least one book has been read, \<open>dominantLength\<close> is the
  first of \<open>quick\<close>, \<open>moderate\<close>, \<open>long\<close> (in this order) whose count among the read books
  with a positive page count is the largest, and \<open>dominantEra\<close> the first of \<open>classic\<close>,
  \<open>late20th\<close>, \<open>modern\<close> whose count among the read books with a positive publication
  year is the largest; a page count or a year that is 0 or negative counts for no
  bucket. When every count is 0 this is the first bucket of the order, not \<open>null\<close>.
\<close>

theorem deriveBehaviourProfile_dominant:
  assumes "filter (\<lambda>b. dateRead b \<noteq> None) books \<noteq> []"
  shows "let readBooks = filter (\<lambda>b. dateRead b \<noteq> None) books;
             nQuick = length (filter (\<lambda>b. 0 < pages b \<and> pages b < 300) readBooks);
             nModerate = length (filter (\<lambda>b. 300 \<le> pages b \<and> pages b \<le> 500) readBooks);
             nLong = length (filter (\<lambda>b. 500 < pages b) readBooks);
             nClassic = length (filter (\<lambda>b. 0 < publicationYear b \<and> publicationYear b < 1950)
                                  readBooks);
             nLate20th = length (filter (\<lambda>b. 1950 \<le> publicationYear b
                                             \<and> publicationYear b \<le> 1999) readBooks);
             nModern = length (filter (\<lambda>b. 2000 \<le> publicationYear b) readBooks)
         in dominantLength (deriveBehaviourProfile books)
              = Some (if nModerate \<le> nQuick \<and> nLong \<le> nQuick then ''quick''
                      else if nLong \<le> nModerate then ''moderate'' else ''long'')
          \<and> dominantEra (deriveBehaviourProfile books)
              = Some (if nLate20th \<le> nClassic \<and> nModern \<le> nClassic then ''classic''
                      else if nModern \<le> nLate20th then ''late20th'' else ''modern'')"
  using assms
  unfolding deriveBehaviourProfile_def Let_def foldl_countLength foldl_countEra
    lengthEntries_def eraEntries_def
  by (simp add: firstKey_three)

text \<open>
  One read book of unknown page count and unknown year: every count is 0, and the
  dominant buckets are the first of each order.
\<close>

theorem deriveBehaviourProfile_dominant_witness:
  "filter (\<lambda>b. dateRead b \<noteq> None) [readBook 0 0, backlogBook 200 2010 4] \<noteq> []
   \<and> dominantLength (deriveBehaviourProfile [readBook 0 0, backlogBook 200 2010 4])
       = Some ''quick''
   \<and> dominantEra (deriveBehaviourProfile [readBook 0 0, backlogBook 200 2010 4])
       = Some ''classic''"
proof -
  have h: "filter (\<lambda>b. dateRead b \<noteq> None) [readBook 0 0, backlogBook 200 2010 4] \<noteq> []"
    by (simp add: readBook_def)
  show ?thesis
    using deriveBehaviourProfile_dominant [OF h] h
    by (simp add: Let_def readBook_def backlogBook_def)
qed

lemma toDouble_4: "toDouble 4 = 4"
  by (subst toDouble_eval [of 2]) (simp_all add: roundHalfEven_def Let_def)

lemma exampleProfile:
  "deriveBehaviourProfile [readBook 400 2010]
     = \<lparr>dominantLength = Some ''moderate'', dominantEra = Some ''modern'',
        topAuthors = [''Author A''], avgRating = Some 4\<rparr>"
  by (simp add: deriveBehaviourProfile_def readBook_def Let_def countLength_def countEra_def
      countAuthor_def lengthEntries_def eraEntries_def sortByCountDesc_def firstKey_def
      objectEntries_def arrayIndex_def isDigit_def average_def dadd_def ddiv_def toDouble_4)

section \<open>Properties of the bonuses\<close>




text \<open>
  Claim C6. For a book whose \<open>dateAdded\<close> text is present and parses to the time
  \<open>added\<close>, the age is \<open>(now - added)\<close> milliseconds divided by the milliseconds of a
  365-day year; under \<open>old\<close> the bonus is 2 from three years on, 1 for an age in
  \<open>[1, 3)\<close> and 0 below; under \<open>new\<close> it is 2 below one year, 1 for an age in \<open>[1, 3)\<close>
  and 0 from three years on. A missing, empty or unparseable \<open>dateAdded\<close> gives 0
  under every preference.
\<close>

theorem applyBacklogScoring_cases:
  "applyBacklogScoring (parseDate(c # cs := Some added)) now
       (b\<lparr>dateAdded := Some (c # cs)\<rparr>) ''old''
     = (let age = real_of_int (now - added) / 31536000000
        in if 3 \<le> age then 2 else if 1 \<le> age \<and> age < 3 then 1 else 0)
   \<and> applyBacklogScoring (parseDate(c # cs := Some added)) now
       (b\<lparr>dateAdded := Some (c # cs)\<rparr>) ''new''
     = (let age = real_of_int (now - added) / 31536000000
        in if age < 1 then 2 else if 1 \<le> age \<and> age < 3 then 1 else 0)
   \<and> applyBacklogScoring parseDate now (b\<lparr>dateAdded := None\<rparr>) preference = 0
   \<and> applyBacklogScoring parseDate now (b\<lparr>dateAdded := Some []\<rparr>) preference = 0
   \<and> applyBacklogScoring (parseDate(c # cs := None)) now
       (b\<lparr>dateAdded := Some (c # cs)\<rparr>) preference = 0"
  by (simp add: applyBacklogScoring_def msPerYear_def Let_def)

text \<open>
  Claim C5, as stated, at a book of unknown page count and unknown publication year,
  with the profile of a reader whose one read book has 400 pages and appeared in 2010
  (dominant length \<open>moderate\<close>, dominant era \<open>modern\<close>): under \<open>different\<close> the
  specification's bonus counts a length mismatch, an era mismatch and the author,
  2.5 in all, while the code gives 0.5, for the author alone.
\<close>

theorem applyBehaviourScoring_unknown_counterexample:
  "applyBehaviourScoring (backlogBook 0 0 4) (deriveBehaviourProfile [readBook 400 2010])
       ''different'' = 1/2
   \<and> spec_behaviourBonus (backlogBook 0 0 4) (deriveBehaviourProfile [readBook 400 2010])
       ''different'' = 5/2"
  by (simp add: exampleProfile applyBehaviourScoring_def spec_behaviourBonus_def
      backlogBook_def truthy_def bookLength_def bookEra_def includesAuthor_def)

text \<open>
  Claim C5, amended. With a profile that has a dominant length and a dominant era, the
  bonus under \<open>familiar\<close> is 1.5 if the page count is known (\<open>pages > 0\<close>) and the length
  bucket equals the dominant length, plus 1.5 if the publication year is known
  (\<open>publicationYear > 0\<close>) and the era bucket equals the dominant era, plus 0.5 if the
  author is among the top authors: at most 3.5. Under \<open>different\<close> it is 1 if the page
  count is known and the length bucket differs, plus 1 if the year is known and the
  era bucket differs, plus 0.5 if the author is not among the top authors: at most
  2.5. A book of unknown page count or year gets no length or era part under either
  choice. With the empty profile the bonus is 0 whatever the choice.
\<close>

theorem applyBehaviourScoring_known_buckets:
  "applyBehaviourScoring b
       (p\<lparr>dominantLength := Some (c1 # dl), dominantEra := Some (c2 # de)\<rparr>) ''familiar''
     = (if 0 < pages b \<and> bookLength b = c1 # dl then 1.5 else 0)
       + (if 0 < publicationYear b \<and> bookEra b = c2 # de then 1.5 else 0)
       + (if includesAuthor (topAuthors p) (author b) then 0.5 else 0)
   \<and> applyBehaviourScoring b
       (p\<lparr>dominantLength := Some (c1 # dl), dominantEra := Some (c2 # de)\<rparr>) ''familiar''
     \<le> 3.5
   \<and> applyBehaviourScoring b
       (p\<lparr>dominantLength := Some (c1 # dl), dominantEra := Some (c2 # de)\<rparr>) ''different''
     = (if 0 < pages b \<and> bookLength b \<noteq> c1 # dl then 1 else 0)
       + (if 0 < publicationYear b \<and> bookEra b \<noteq> c2 # de then 1 else 0)
       + (if includesAuthor (topAuthors p) (author b) then 0 else 0.5)
   \<and> applyBehaviourScoring b
       (p\<lparr>dominantLength := Some (c1 # dl), dominantEra := Some (c2 # de)\<rparr>) ''different''
     \<le> 2.5
   \<and> applyBehaviourScoring b (p\<lparr>dominantLength := None, dominantEra := None\<rparr>) preference = 0
   \<and> applyBehaviourScoring b (deriveBehaviourProfile []) preference = 0"
  by (simp add: applyBehaviourScoring_def truthy_def deriveBehaviourProfile_def)

section \<open>Properties of the final recommendation\<close>


















text \<open>
  Candidates rated 4.4 and 3.9: the double subtraction 4.4 - 0.5 gives the double just
  above the rating 3.9, so the second candidate is not eligible and the first is
  recommended whatever the random number is.
\<close>

lemma runner_up_below_threshold:
  "runRecommendation noDate 0 r (ratedState [rating44, rating39])
     = Rendered \<lparr>book = backlogBook 0 0 rating44, score = rating44, totalCandidates = 2\<rparr>"
  by (simp add: runRecommendation_def sortByScoreDesc_def scoreCandidates_def ratedState_def
      calculateFinalScore_def emptySelections_def backlogBook_def selectWinner_def
      dsub_def rating44_def rating39_def toDouble_binade roundHalfEven_def Let_def)

text \<open>
  Under \<open>old\<close>, a book rated 3.56 without a date against a book rated 3.06 with the
  bonus 1: the double sum 3.06 + 1 is rounded up, the threshold is the double just above
  3.56, and the second book is recommended whatever the random number is.
\<close>

lemma rounded_sum_excludes_runner_up:
  "scoreCandidates epochDate twoYears agedState
     = [\<lparr>book = backlogBook 0 0 (toDouble 3.56), score = 8016407336719483 / 2 ^ 51\<rparr>,
        \<lparr>book = (backlogBook 0 0 (toDouble 3.06))\<lparr>dateAdded := Some ''2023/01/01''\<rparr>,
         score = 2285576810890527 / 2 ^ 49\<rparr>]
   \<and> runRecommendation epochDate twoYears r agedState
     = Rendered \<lparr>book = (backlogBook 0 0 (toDouble 3.06))\<lparr>dateAdded := Some ''2023/01/01''\<rparr>,
                 score = 2285576810890527 / 2 ^ 49, totalCandidates = 2\<rparr>"
  by (simp add: runRecommendation_def sortByScoreDesc_def scoreCandidates_def agedState_def
      calculateFinalScore_def emptySelections_def backlogBook_def selectWinner_def
      applyBacklogScoring_def msPerYear_def epochDate_def twoYears_def
      dadd_def dsub_def toDouble_binade roundHalfEven_def Let_def)

text \<open>A rendered winner is one of the scored candidates, so its book is a candidate.\<close>

lemma selectWinner_member:
  assumes "selectWinner r w rest = Some x"
  shows "x \<in> set (w # rest)"
proof -
  let ?near = "filter (\<lambda>s. score s \<ge> dsub (score w) 0.5) (w # rest)"
  let ?i = "\<lfloor>dmul r (real (length ?near))\<rfloor>"
  from assms have "x = w \<or> (0 \<le> ?i \<and> ?i < int (length ?near) \<and> x = ?near ! nat ?i)"
    unfolding selectWinner_def Let_def by (auto simp del: filter.simps split: if_splits)
  then show ?thesis
  proof
    assume "x = w"
    then show ?thesis by simp
  next
    assume a: "0 \<le> ?i \<and> ?i < int (length ?near) \<and> x = ?near ! nat ?i"
    then have "nat ?i < length ?near" by linarith
    then have "?near ! nat ?i \<in> set ?near" by (rule nth_mem)
    then have "?near ! nat ?i \<in> set (w # rest)"
      by (metis filter_is_subset subsetD)
    then show ?thesis using a by simp
  qed
qed

lemma runRecommendation_book:
  assumes "runRecommendation parseDate now r st = Rendered rec"
  shows "book rec \<in> set (candidates st)"
proof -
  let ?ranked = "sortByScoreDesc (scoreCandidates parseDate now st)"
  from assms obtain w0 rest x where ranked: "?ranked = w0 # rest"
    and sel: "selectWinner r w0 rest = Some x" and rec: "book rec = book x"
    by (auto simp: runRecommendation_def split: if_splits list.splits option.splits)
  have "x \<in> set ?ranked"
    using selectWinner_member [OF sel] ranked by simp
  then have "x \<in> set (scoreCandidates parseDate now st)"
    by (simp add: sortByScoreDesc_def)
  then show ?thesis
    unfolding rec by (auto simp: scoreCandidates_def)
qed

section \<open>Properties of the funnel\<close>

lemma applyEvent_allBooks: "allBooks (applyEvent st e) = allBooks st"
  by (cases e)
     (simp_all add: stepButtonClick_def backButtonClick_def relaxConstraint_def
        resetDecisionFlow_def advanceStep_def clearPassedSelections_def Let_def)

lemma applyEvent_behaviourProfile: "behaviourProfile (applyEvent st e) = behaviourProfile st"
  by (cases e)
     (simp_all add: stepButtonClick_def backButtonClick_def relaxConstraint_def
        resetDecisionFlow_def advanceStep_def clearPassedSelections_def Let_def)

lemma runEvents_allBooks: "allBooks (runEvents st es) = allBooks st"
  unfolding runEvents_def by (induction es arbitrary: st) (simp_all add: applyEvent_allBooks)

lemma runEvents_behaviourProfile: "behaviourProfile (runEvents st es) = behaviourProfile st"
  unfolding runEvents_def
  by (induction es arbitrary: st) (simp_all add: applyEvent_behaviourProfile)

lemma applyTimeFilter_subseq: "subseq (applyTimeFilter books v) books"
  by (simp add: applyTimeFilter_def)

lemma applyEvent_subseq:
  assumes "subseq (candidates st) (allBooks st)"
  shows "subseq (candidates (applyEvent st e)) (allBooks (applyEvent st e))"
proof (cases e)
  case (StepButton k v)
  have "subseq (applyTimeFilter (candidates st) v) (allBooks st)"
    using applyTimeFilter_subseq assms subseq_order.order_trans by blast
  with assms StepButton show ?thesis
    by (simp add: stepButtonClick_def advanceStep_def Let_def)
next
  case (BackButton t)
  with assms show ?thesis
    by (simp add: backButtonClick_def advanceStep_def clearPassedSelections_def Let_def)
next
  case RelaxButton
  then show ?thesis by (simp add: relaxConstraint_def Let_def)
next
  case StartOver
  then show ?thesis by (simp add: resetDecisionFlow_def)
qed

lemma runEvents_subseq:
  "subseq (candidates st) (allBooks st) \<Longrightarrow>
   subseq (candidates (runEvents st es)) (allBooks (runEvents st es))"
  unfolding runEvents_def
  by (induction es arbitrary: st) (simp_all add: applyEvent_subseq)

text \<open>
  Claim C9. After any sequence of funnel actions (forward choices among them) on a
  freshly initialised funnel, \<open>resetDecisionFlow\<close> gives back the state of the
  initialisation: step 1, the candidates equal to the whole backlog, the four selections
  empty, and the behaviour profile the one derived at initialisation; the reset itself
  never touches the profile. Filtering the candidates with \<open>any\<close> afterwards gives as
  many books as the backlog has.
\<close>

theorem resetDecisionFlow_restores:
  "resetDecisionFlow (runEvents (initDecisionEngine books backlog) events)
     = initDecisionEngine books backlog
   \<and> resetDecisionFlow (runEvents (initDecisionEngine books backlog) events)
     = \<lparr>currentStep = 1,
        selections = \<lparr>timeInvestment = [], behaviourPreference = [],
                      backlogPreference = [], riskPreference = []\<rparr>,
        candidates = backlog, allBooks = backlog,
        behaviourProfile = Some (deriveBehaviourProfile books)\<rparr>
   \<and> behaviourProfile (resetDecisionFlow st) = behaviourProfile st
   \<and> length (applyTimeFilter
        (candidates (resetDecisionFlow (runEvents (initDecisionEngine books backlog) events)))
        ''any'') = length backlog"
proof -
  let ?st = "runEvents (initDecisionEngine books backlog) events"
  have a: "allBooks ?st = backlog"
    by (simp add: runEvents_allBooks initDecisionEngine_def)
  have p: "behaviourProfile ?st = Some (deriveBehaviourProfile books)"
    by (simp add: runEvents_behaviourProfile initDecisionEngine_def)
  have r: "resetDecisionFlow ?st = initDecisionEngine books backlog"
    using a p by (simp add: resetDecisionFlow_def initDecisionEngine_def)
  have k: "behaviourProfile (resetDecisionFlow st) = behaviourProfile st"
    by (simp add: resetDecisionFlow_def)
  have f: "length (applyTimeFilter (candidates (resetDecisionFlow ?st)) ''any'') = length backlog"
    unfolding r by (simp add: initDecisionEngine_def applyTimeFilter_def)
  show ?thesis
    unfolding r using k f unfolding r
    by (simp add: initDecisionEngine_def emptySelections_def)
qed

text \<open>
  Claim C10. In every state reached from an initialised funnel by step buttons, back
  buttons, the relax button and start-over, \<open>allBooks\<close> is still the original backlog and
  the candidates are a subsequence of it, in its order; so there are never more
  candidates than backlog books, every scored book is a backlog book, and a
  recommendation, drawn with a random number in \<open>[0, 1)\<close>, is a backlog book.
\<close>

theorem candidates_subseq_allBooks:
  "allBooks (runEvents (initDecisionEngine books backlog) events) = backlog
   \<and> subseq (candidates (runEvents (initDecisionEngine books backlog) events)) backlog
   \<and> length (candidates (runEvents (initDecisionEngine books backlog) events)) \<le> length backlog
   \<and> set (map book (scoreCandidates parseDate now
              (runEvents (initDecisionEngine books backlog) events))) \<subseteq> set backlog
   \<and> (0 \<le> r \<and> r < 1
        \<and> runRecommendation parseDate now r
             (runEvents (initDecisionEngine books backlog) events) = Rendered rec
      \<longrightarrow> book rec \<in> set backlog)"
proof -
  let ?st = "runEvents (initDecisionEngine books backlog) events"
  have a: "allBooks ?st = backlog"
    by (simp add: runEvents_allBooks initDecisionEngine_def)
  have "subseq (candidates ?st) (allBooks ?st)"
    by (rule runEvents_subseq) (simp add: initDecisionEngine_def)
  then have s: "subseq (candidates ?st) backlog"
    by (simp add: a)
  have l: "length (candidates ?st) \<le> length backlog"
    using s by (rule list_emb_length)
  have sub: "set (candidates ?st) \<subseteq> set backlog"
    using s by (auto elim: list_emb_set)
  have sc: "set (map book (scoreCandidates parseDate now ?st)) \<subseteq> set backlog"
    using sub by (auto simp: scoreCandidates_def)
  have rc: "0 \<le> r \<and> r < 1 \<and> runRecommendation parseDate now r ?st = Rendered rec
            \<longrightarrow> book rec \<in> set backlog"
    using runRecommendation_book sub by blast
  show ?thesis
    using a s l sc rc by blast
qed

text \<open>
  A session on a backlog of a 200-page and a 400-page book: \<open>quick\<close>, \<open>familiar\<close>,
  \<open>old\<close>, \<open>safe\<close>. The 200-page book is the one candidate left and is recommended, with
  the score 5 + 0 + 0 + 2.5.
\<close>

lemma exampleSession:
  "runEvents (initDecisionEngine [] [backlogBook 200 0 5, backlogBook 400 0 rating46])
      [StepButton TimeInvestment ''quick'', StepButton BehaviourPreference ''familiar'',
       StepButton BacklogPreference ''old'', StepButton RiskPreference ''safe'']
     = \<lparr>currentStep = 4,
        selections = \<lparr>timeInvestment = ''quick'', behaviourPreference = ''familiar'',
                      backlogPreference = ''old'', riskPreference = ''safe''\<rparr>,
        candidates = [backlogBook 200 0 5],
        allBooks = [backlogBook 200 0 5, backlogBook 400 0 rating46],
        behaviourProfile = Some (deriveBehaviourProfile [])\<rparr>"
  by (simp add: runEvents_def initDecisionEngine_def stepButtonClick_def
      applyTimeFilter_def advanceStep_def emptySelections_def backlogBook_def Let_def)

lemma exampleSession_result:
  "runRecommendation noDate 0 0
      (runEvents (initDecisionEngine [] [backlogBook 200 0 5, backlogBook 400 0 rating46])
         [StepButton TimeInvestment ''quick'', StepButton BehaviourPreference ''familiar'',
          StepButton BacklogPreference ''old'', StepButton RiskPreference ''safe''])
     = Rendered \<lparr>book = backlogBook 200 0 5, score = 15/2, totalCandidates = 1\<rparr>"
  unfolding exampleSession
  by (simp add: runRecommendation_def scoreCandidates_def sortByScoreDesc_def
      selectWinner_def calculateFinalScore_def applyBehaviourScoring_def
      applyBacklogScoring_def applyRiskScoring_def deriveBehaviourProfile_def truthy_def
      backlogBook_def dadd_def dmul_def toDouble_binade roundHalfEven_def Let_def)

theorem candidates_subseq_allBooks_witness:
  "(0::real) \<le> 0 \<and> (0::real) < 1
   \<and> runRecommendation noDate 0 0
        (runEvents
           (initDecisionEngine [] [backlogBook 200 0 5, backlogBook 400 0 rating46])
           [StepButton TimeInvestment ''quick'', StepButton BehaviourPreference ''familiar'',
            StepButton BacklogPreference ''old'', StepButton RiskPreference ''safe''])
       = Rendered \<lparr>book = backlogBook 200 0 5, score = 15/2, totalCandidates = 1\<rparr>
   \<and> book \<lparr>book = backlogBook 200 0 5, score = 15/2, totalCandidates = 1\<rparr>
       \<in> set [backlogBook 200 0 5, backlogBook 400 0 rating46]"
  using candidates_subseq_allBooks
          [of "[]" "[backlogBook 200 0 5, backlogBook 400 0 rating46]"
              "[StepButton TimeInvestment ''quick'', StepButton BehaviourPreference ''familiar'',
                StepButton BacklogPreference ''old'', StepButton RiskPreference ''safe'']"
              noDate 0 0
              "\<lparr>book = backlogBook 200 0 5, score = 15/2, totalCandidates = 1\<rparr>"]
        exampleSession_result
  by simp

text \<open>
  Claim C2 says that a step back clears the selections of the steps after the target
  and leaves those at or before the target as they are. The handler clears by the
  current step, not by the target: at Step 4, after the choices \<open>any\<close>, \<open>familiar\<close>
  and \<open>old\<close>, the back button to Step 3 empties the Step-2 selection \<open>familiar\<close> (and
  the Step-3 selection \<open>old\<close>) as well.
\<close>

theorem backButtonClick_4_to_3_clears_step2:
  "runEvents (initDecisionEngine [] [backlogBook 400 2010 4])
      [StepButton TimeInvestment ''any'', StepButton BehaviourPreference ''familiar'',
       StepButton BacklogPreference ''old''] = stateAtStep4
   \<and> backButtonClick 3 stateAtStep4
     = stateAtStep4\<lparr>currentStep := 3,
         selections := \<lparr>timeInvestment = ''any'', behaviourPreference = [],
                        backlogPreference = [], riskPreference = []\<rparr>\<rparr>"
  by (simp add: runEvents_def initDecisionEngine_def stepButtonClick_def
      applyTimeFilter_def emptySelections_def backButtonClick_def clearPassedSelections_def
      advanceStep_def stateAtStep4_def Let_def)

text \<open>
  Claim C3 says that a Step-1 choice whose filter leaves no candidate has no effect on
  the state, and that the relax action resets the candidates and clears the Step-1
  selection. On a backlog of one 400-page book the choice \<open>quick\<close> is rejected, the
  funnel stays at Step 1 with its candidates, but the selection \<open>quick\<close> is already
  stored; \<open>relaxConstraint\<close> then resets the candidates and leaves \<open>quick\<close> in place,
  since it clears the selection only at Step 2.
\<close>

theorem rejected_step1_keeps_selection:
  "stepButtonClick TimeInvestment ''quick'' (initDecisionEngine [] [backlogBook 400 2010 4])
     = ((initDecisionEngine [] [backlogBook 400 2010 4])
          \<lparr>selections := emptySelections\<lparr>timeInvestment := ''quick''\<rparr>\<rparr>,
        ShowNoCandidatesMessage)
   \<and> relaxConstraint (fst (stepButtonClick TimeInvestment ''quick''
                             (initDecisionEngine [] [backlogBook 400 2010 4])))
     = (initDecisionEngine [] [backlogBook 400 2010 4])
          \<lparr>selections := emptySelections\<lparr>timeInvestment := ''quick''\<rparr>\<rparr>"
  by (simp add: stepButtonClick_def relaxConstraint_def initDecisionEngine_def
      applyTimeFilter_def backlogBook_def Let_def)

end
